theory Spec2Isabelle
  imports Complex_Main
begin

section \<open>Data model\<close>

text \<open>
  The schedulers of \<^verbatim>\<open>schedulers/sadcher.py\<close>, the factory of
  \<^verbatim>\<open>schedulers/initialize_schedulers.py\<close> and the driver
  \<^verbatim>\<open>run_one_simulation\<close> of \<^verbatim>\<open>benchmarking/benchmark_schedulers.py\<close>.
  Tensors are lists of rows over \<open>real\<close> (float32 rounding and NaN are not modelled);
  every exception of the source is a value of \<open>error\<close>.
\<close>

datatype error =
    ValueError string
  | TypeError string
  | RuntimeError string
  | IndexError
  | AttributeError string

type_synonym matrix = "real list list"

record task =
  task_id :: nat
  incomplete :: bool
  status :: string

record robot =
  robot_id :: nat
  available :: bool
  current_task :: "task option"

record simulation =
  robots :: "robot list"
  tasks :: "task list"
  task_adjacency :: matrix
  duration_normalization :: real
  location_normalization :: real
  sim_done :: bool
  timestep :: real
  makespan :: real

text \<open>The matcher's raw result: the items of a dict \<open>{(robot, task): val}\<close> in order.\<close>

type_synonym solution = "((nat \<times> nat) \<times> real) list"

datatype schedule = Instantaneous_Schedule "nat \<rightharpoonup> nat"

text \<open>
  \<open>CachedBipartiteMatcher(sim)\<close> is built from the snapshot at the first general
  decision point and kept on the scheduler; its class is not part of the sources, so
  \<open>solve\<close> is a parameter (see \<open>env\<close>).
\<close>

datatype matcher = CachedBipartiteMatcher simulation

text \<open>A checkpoint as \<open>torch.load\<close> returns it: tensors (shape, data) and dicts.\<close>

datatype ckpt = Tensor "nat list" "real list" | Dict "(string \<times> ckpt) list"

text \<open>A module's \<open>state_dict()\<close>: parameter name to tensor (shape, data).\<close>

type_synonym state_dict = "(string \<times> nat list \<times> real list) list"

text \<open>The value of a Python argument that may be \<open>None\<close>, a \<open>str\<close> or something else.\<close>

datatype pyarg = PyNone | PyStr string | PyOther

record sadcher =
  debug :: bool
  sched_duration_normalization :: real
  sched_location_normalization :: real
  trained_model_state :: state_dict
  bipartite_matcher :: "matcher option"

datatype sadcher_scheduler =
    SadcherScheduler sadcher
  | StochasticILSadcherScheduler sadcher real

text \<open>
  The scheduler objects \<open>create_scheduler\<close> returns. The classes of the greedy, the
  random and the RL scheduler are not part of the sources: the first two are built
  without arguments, the third from the same arguments as \<open>SadcherScheduler\<close>.
\<close>

datatype scheduler =
    GreedyInstantaneousScheduler
  | RandomBipartiteMatchingScheduler
  | Sadcher sadcher_scheduler
  | RLSadcherScheduler bool pyarg real real

text \<open>The keys \<open>"T_e"\<close> and \<open>"T_t"\<close> of a problem instance.\<close>

record problem_instance =
  T_e :: "real list"
  T_t :: matrix

datatype call = OracleCall | MatcherInit | MatcherSolve matrix

text \<open>A value \<open>calculate_robot_assignment\<close> returns: a schedule, or a pair.\<close>

datatype retval = RetSchedule schedule | RetTuple matrix schedule

text \<open>
  What the sources call but do not contain: feature vectors of tasks and robots, the
  network's forward pass, the standard-normal draws behind \<open>torch.normal\<close>, the matcher's
  \<open>solve\<close>, the two assignment filters, \<open>torch.load\<close>, the fresh network's
  \<open>state_dict()\<close>, whether the constructor of the RL scheduler raises and whether its
  class derives from \<open>SadcherScheduler\<close>, the simulation's constructor and methods, the
  other schedulers' \<open>calculate_robot_assignment\<close>, and the readings of \<open>time.time()\<close>.
\<close>

record env =
  task_feature_vector :: "task \<Rightarrow> real \<Rightarrow> real \<Rightarrow> real list"
  robot_feature_vector :: "robot \<Rightarrow> real \<Rightarrow> real \<Rightarrow> real list"
  trained_model :: "state_dict \<Rightarrow> matrix \<Rightarrow> matrix \<Rightarrow> matrix \<Rightarrow> matrix"
  randn :: "nat \<Rightarrow> nat \<Rightarrow> real"
  matcher_solve :: "matcher \<Rightarrow> matrix \<Rightarrow> solution \<times> matcher"
  ext_filter_redundant_assignments :: "solution \<Rightarrow> simulation \<Rightarrow> solution"
  ext_filter_overassignments :: "solution \<Rightarrow> simulation \<Rightarrow> solution"
  torch_load :: "string \<Rightarrow> error + ckpt"
  scheduler_network_state :: state_dict
  rl_sadcher_init :: "bool \<Rightarrow> pyarg \<Rightarrow> real \<Rightarrow> real \<Rightarrow> error option"
  rl_is_sadcher :: bool
  Simulation :: "problem_instance \<Rightarrow> string \<Rightarrow> error + simulation"
  other_calculate_robot_assignment :: "scheduler \<Rightarrow> simulation \<Rightarrow> error + retval \<times> simulation"
  find_highest_non_idle_reward :: "simulation \<Rightarrow> matrix \<Rightarrow> simulation"
  assign_tasks_to_robots :: "simulation \<Rightarrow> retval \<Rightarrow> simulation"
  step_until_next_decision_point :: "simulation \<Rightarrow> simulation"
  clock :: "nat \<Rightarrow> real"

text \<open>
  The outcome of a call of \<open>SadcherScheduler.calculate_robot_assignment\<close>: the value
  it returns, the snapshot and the scheduler after the call, and the calls it made to the
  reward model and the matcher.
\<close>

record outcome =
  ret :: retval
  sim_after :: simulation
  scheduler_after :: sadcher_scheduler
  calls :: "call list"

section \<open>SadcherScheduler\<close>

definition attrs :: "sadcher_scheduler \<Rightarrow> sadcher" where
  "attrs sch = (case sch of SadcherScheduler f \<Rightarrow> f | StochasticILSadcherScheduler f _ \<Rightarrow> f)"

definition with_attrs :: "sadcher_scheduler \<Rightarrow> sadcher \<Rightarrow> sadcher_scheduler" where
  "with_attrs sch f =
     (case sch of SadcherScheduler _ \<Rightarrow> SadcherScheduler f
      | StochasticILSadcherScheduler _ sd \<Rightarrow> StochasticILSadcherScheduler f sd)"

definition available_robots :: "simulation \<Rightarrow> robot list" where
  "available_robots sim = filter available (robots sim)"

definition incomplete_tasks :: "simulation \<Rightarrow> task list" where
  "incomplete_tasks sim =
     filter (\<lambda>t. incomplete t \<and> status t = ''PENDING'') (tasks sim)"

text \<open>\<open>torch.zeros((r, c))\<close>.\<close>

definition zeros :: "nat \<Rightarrow> nat \<Rightarrow> matrix" where
  "zeros r c = replicate r (replicate c 0)"

text \<open>\<open>torch.clamp(m, min=lo)\<close>.\<close>

definition clamp_min :: "real \<Rightarrow> matrix \<Rightarrow> matrix" where
  "clamp_min lo m = map (map (\<lambda>x. max x lo)) m"

definition reward_floor :: real where
  "reward_floor = 1 / 1000000"

text \<open>
  \<open>torch.normal(mean, std)\<close> for a tensor of means and one spread: entry \<open>(i, j)\<close> is
  \<open>mean + std * z\<close> for a standard-normal draw \<open>z\<close>, here \<open>randn env i j\<close>; a negative
  spread raises.
\<close>

fun normal_row :: "(nat \<Rightarrow> real) \<Rightarrow> real \<Rightarrow> nat \<Rightarrow> real list \<Rightarrow> real list" where
  "normal_row z sd j [] = []"
| "normal_row z sd j (m # ms) = (m + sd * z j) # normal_row z sd (Suc j) ms"

fun normal_rows :: "(nat \<Rightarrow> nat \<Rightarrow> real) \<Rightarrow> real \<Rightarrow> nat \<Rightarrow> matrix \<Rightarrow> matrix" where
  "normal_rows z sd i [] = []"
| "normal_rows z sd i (r # rs) = normal_row (z i) sd 0 r # normal_rows z sd (Suc i) rs"

definition torch_normal :: "env \<Rightarrow> matrix \<Rightarrow> real \<Rightarrow> error + matrix" where
  "torch_normal env mean sd =
     (if sd < 0 then Inl (RuntimeError ''normal expects std >= 0.0'')
      else Inr (normal_rows (randn env) sd 0 mean))"

definition sample_rewards :: "env \<Rightarrow> sadcher_scheduler \<Rightarrow> matrix \<Rightarrow> error + matrix" where
  "sample_rewards env sch predicted_reward =
     (case sch of
        SadcherScheduler _ \<Rightarrow> Inr predicted_reward
      | StochasticILSadcherScheduler _ sd \<Rightarrow>
          (case torch_normal env predicted_reward sd of
             Inl e \<Rightarrow> Inl e
           | Inr sampled \<Rightarrow> Inr (clamp_min reward_floor sampled)))"

text \<open>The slice \<open>xs[1:-2]\<close>: from index 1 up to, not including, index \<open>len(xs) - 2\<close>.\<close>

definition slice_1_minus2 :: "'a list \<Rightarrow> 'a list" where
  "slice_1_minus2 xs = drop 1 (take (length xs - 2) xs)"

definition extract_task_robot_features ::
  "env \<Rightarrow> sadcher_scheduler \<Rightarrow> simulation \<Rightarrow> matrix \<times> matrix" where
  "extract_task_robot_features env sch sim =
     (map (\<lambda>t. task_feature_vector env t
                 (sched_location_normalization (attrs sch))
                 (sched_duration_normalization (attrs sch)))
          (slice_1_minus2 (tasks sim)),
      map (\<lambda>r. robot_feature_vector env r
                 (sched_location_normalization (attrs sch))
                 (sched_duration_normalization (attrs sch)))
          (robots sim))"

text \<open>
  \<open>torch.cat((col, m, col), dim=1)\<close> for the column \<open>col\<close> of \<open>n_robots\<close> entries
  \<open>-1000\<close>: the row counts must agree.
\<close>

definition cat_start_end :: "nat \<Rightarrow> matrix \<Rightarrow> error + matrix" where
  "cat_start_end n_robots m =
     (if length m \<noteq> n_robots
      then Inl (RuntimeError ''Sizes of tensors must match except in dimension 1'')
      else Inr (map (\<lambda>row. [- 1000] @ row @ [- 1000]) m))"

text \<open>
  The debugging loop reads \<open>m[robot_idx][task_idx]\<close> for every robot and task of the
  snapshot (in both matrices, which have the same shape); a read out of range raises.
\<close>

definition debug_reads_ok :: "simulation \<Rightarrow> matrix \<Rightarrow> bool" where
  "debug_reads_ok sim m =
     (tasks sim = [] \<or>
      (length (robots sim) \<le> length m \<and>
       list_all (\<lambda>row. length (tasks sim) \<le> length row) (take (length (robots sim)) m)))"

text \<open>
  \<open>{robot: task for (robot, task), val in items if val == 1}\<close>: a later item with the
  same robot overwrites an earlier one.
\<close>

fun robot_assignments_of :: "solution \<Rightarrow> (nat \<rightharpoonup> nat) \<Rightarrow> (nat \<rightharpoonup> nat)" where
  "robot_assignments_of [] acc = acc"
| "robot_assignments_of (((r, t), v) # rest) acc =
     robot_assignments_of rest (if v = 1 then acc(r \<mapsto> t) else acc)"

text \<open>
  The loop of the end-game branch: \<open>robot_assignments[robot.robot_id] = task.task_id\<close>
  and \<open>robot.current_task = task\<close> for every available robot. The robots of
  \<open>available_robots\<close> are the objects of \<open>sim.robots\<close>, so the second statement changes
  the snapshot.
\<close>

fun end_game_assignments :: "task \<Rightarrow> robot list \<Rightarrow> (nat \<rightharpoonup> nat) \<Rightarrow> (nat \<rightharpoonup> nat)" where
  "end_game_assignments t [] acc = acc"
| "end_game_assignments t (r # rs) acc = end_game_assignments t rs (acc(robot_id r \<mapsto> task_id t))"

definition end_game_robots :: "task \<Rightarrow> robot list \<Rightarrow> robot list" where
  "end_game_robots t rs =
     map (\<lambda>r. if available r then r\<lparr>current_task := Some t\<rparr> else r) rs"

definition general_path :: "env \<Rightarrow> sadcher_scheduler \<Rightarrow> simulation \<Rightarrow> error + outcome" where
  "general_path env sch sim =
     (let n_robots = length (robots sim);
          (task_features, robot_features) = extract_task_robot_features env sch sim;
          predicted_reward_raw =
            trained_model env (trained_model_state (attrs sch))
              robot_features task_features (task_adjacency sim);
          clamped = clamp_min reward_floor predicted_reward_raw
      in case sample_rewards env sch clamped of
           Inl e \<Rightarrow> Inl e
         | Inr sampled \<Rightarrow>
            (case cat_start_end n_robots sampled of
               Inl e \<Rightarrow> Inl e
             | Inr predicted_reward \<Rightarrow>
                (case cat_start_end n_robots predicted_reward_raw of
                   Inl e \<Rightarrow> Inl e
                 | Inr raw_with_sentinels \<Rightarrow>
                    if debug (attrs sch) \<and> \<not> debug_reads_ok sim predicted_reward
                    then Inl IndexError
                    else
                      let fresh = (bipartite_matcher (attrs sch) = None);
                          m = (case bipartite_matcher (attrs sch) of
                                 None \<Rightarrow> CachedBipartiteMatcher sim
                               | Some m' \<Rightarrow> m');
                          (bipartite_matching_solution, m2) = matcher_solve env m predicted_reward;
                          filtered1 = ext_filter_redundant_assignments env bipartite_matching_solution sim;
                          filtered2 = ext_filter_overassignments env filtered1 sim
                      in Inr \<lparr>ret = RetTuple predicted_reward
                                      (Instantaneous_Schedule (robot_assignments_of filtered2 Map.empty)),
                              sim_after = sim,
                              scheduler_after =
                                with_attrs sch ((attrs sch)\<lparr>bipartite_matcher := Some m2\<rparr>),
                              calls = [OracleCall] @ (if fresh then [MatcherInit] else [])
                                      @ [MatcherSolve predicted_reward]\<rparr>)))"

definition calculate_robot_assignment ::
  "env \<Rightarrow> sadcher_scheduler \<Rightarrow> simulation \<Rightarrow> error + outcome" where
  "calculate_robot_assignment env sch sim =
     (let n_robots = length (robots sim) in
      if length (incomplete_tasks sim) = 1
      then
        let t = hd (incomplete_tasks sim) in
        Inr \<lparr>ret = RetTuple (zeros n_robots (length (tasks sim)))
                     (Instantaneous_Schedule
                        (end_game_assignments t (available_robots sim) Map.empty)),
             sim_after = sim\<lparr>robots := end_game_robots t (robots sim)\<rparr>,
             scheduler_after = sch,
             calls = []\<rparr>
      else general_path env sch sim)"

section \<open>Loading the model weights and building a scheduler\<close>

text \<open>A name between single quotes, as the messages of the exceptions show it.\<close>

definition quoted :: "string \<Rightarrow> string" where
  "quoted s = CHR 0x27 # s @ [CHR 0x27]"

text \<open>A Python dict as its items in insertion order: storing a key again keeps its place.\<close>

fun dict_set :: "(string \<times> 'v) list \<Rightarrow> string \<Rightarrow> 'v \<Rightarrow> (string \<times> 'v) list" where
  "dict_set [] k v = [(k, v)]"
| "dict_set ((k', v') # d) k v =
     (if k' = k then (k', v) # d else (k', v') # dict_set d k v)"

text \<open>\<open>c.get(k, default)\<close>: only a dict has the method.\<close>

definition py_get :: "ckpt \<Rightarrow> string \<Rightarrow> ckpt \<Rightarrow> error + ckpt" where
  "py_get c k dflt =
     (case c of
        Dict d \<Rightarrow> Inr (case map_of d k of Some v \<Rightarrow> v | None \<Rightarrow> dflt)
      | Tensor _ _ \<Rightarrow> Inl (AttributeError ''get''))"

definition py_items :: "ckpt \<Rightarrow> error + (string \<times> ckpt) list" where
  "py_items c =
     (case c of Dict d \<Rightarrow> Inr d | Tensor _ _ \<Rightarrow> Inl (AttributeError ''items''))"

text \<open>\<open>k[len(prefix):] if k.startswith(prefix) else k\<close>.\<close>

definition strip_prefix :: "string \<Rightarrow> string \<Rightarrow> string" where
  "strip_prefix prefix k =
     (if take (length prefix) k = prefix then drop (length prefix) k else k)"

fun strip_all_keys :: "string \<Rightarrow> (string \<times> ckpt) list \<Rightarrow> (string \<times> ckpt) list
    \<Rightarrow> (string \<times> ckpt) list" where
  "strip_all_keys prefix [] acc = acc"
| "strip_all_keys prefix ((k, v) # rest) acc =
     strip_all_keys prefix rest (dict_set acc (strip_prefix prefix k) v)"

text \<open>
  \<open>{k: v for k, v in items if k in current and v.size() == current[k].size()}\<close>:
  \<open>v.size()\<close> is evaluated only for a key of the current state, and only a tensor
  has it.
\<close>

fun filtered_checkpoint :: "state_dict \<Rightarrow> (string \<times> ckpt) list \<Rightarrow> state_dict
    \<Rightarrow> error + state_dict" where
  "filtered_checkpoint cur [] acc = Inr acc"
| "filtered_checkpoint cur ((k, v) # rest) acc =
     (case map_of cur k of
        None \<Rightarrow> filtered_checkpoint cur rest acc
      | Some (shape, _) \<Rightarrow>
          (case v of
             Dict _ \<Rightarrow> Inl (AttributeError ''size'')
           | Tensor s d \<Rightarrow>
               if s = shape then filtered_checkpoint cur rest (dict_set acc k (s, d))
               else filtered_checkpoint cur rest acc))"


text \<open>\<open>load_state_dict(filtered, strict=False)\<close>: every key is a parameter of matching size.\<close>

fun load_state_dict :: "state_dict \<Rightarrow> state_dict \<Rightarrow> state_dict" where
  "load_state_dict cur [] = cur"
| "load_state_dict cur ((k, t) # rest) = load_state_dict (dict_set cur k t) rest"

definition load_model_weights :: "env \<Rightarrow> state_dict \<Rightarrow> pyarg \<Rightarrow> error + state_dict" where
  "load_model_weights env current_state_dict checkpoint_path =
     (case checkpoint_path of
        PyNone \<Rightarrow> Inl (ValueError ''Checkpoint path must be provided'')
      | PyOther \<Rightarrow> Inl (ValueError ''Checkpoint path must be a string'')
      | PyStr path \<Rightarrow>
          (case torch_load env path of
             Inl e \<Rightarrow> Inl e
           | Inr checkpoint \<Rightarrow>
              (case py_get checkpoint ''state_dict'' checkpoint of
                 Inl e \<Rightarrow> Inl e
               | Inr c1 \<Rightarrow>
                  (case py_get c1 ''policy'' checkpoint of
                     Inl e \<Rightarrow> Inl e
                   | Inr c2 \<Rightarrow>
                      (case py_items c2 of
                         Inl e \<Rightarrow> Inl e
                       | Inr items \<Rightarrow>
                          (case filtered_checkpoint current_state_dict
                                  (strip_all_keys ''scheduler_net.'' items []) [] of
                             Inl e \<Rightarrow> Inl e
                           | Inr filtered \<Rightarrow>
                               Inr (load_state_dict current_state_dict filtered)))))))"

text \<open>\<open>SadcherScheduler.__init__\<close>: the weights are loaded before the object exists.\<close>

definition sadcher_init :: "env \<Rightarrow> bool \<Rightarrow> pyarg \<Rightarrow> real \<Rightarrow> real \<Rightarrow> error + sadcher" where
  "sadcher_init env debugging checkpoint_path duration_norm location_norm =
     (case load_model_weights env (scheduler_network_state env) checkpoint_path of
        Inl e \<Rightarrow> Inl e
      | Inr st \<Rightarrow>
          Inr \<lparr>debug = debugging,
               sched_duration_normalization = duration_norm,
               sched_location_normalization = location_norm,
               trained_model_state = st,
               bipartite_matcher = None\<rparr>)"

definition create_scheduler ::
  "env \<Rightarrow> string \<Rightarrow> pyarg \<Rightarrow> real \<Rightarrow> real \<Rightarrow> bool \<Rightarrow> real \<Rightarrow> error + scheduler" where
  "create_scheduler env name checkpoint_path duration_norm location_norm debugging sd =
     (if name = ''greedy'' then Inr GreedyInstantaneousScheduler
      else if name = ''random_bipartite'' then Inr RandomBipartiteMatchingScheduler
      else if name = ''sadcher'' then
        (case sadcher_init env debugging checkpoint_path duration_norm location_norm of
           Inl e \<Rightarrow> Inl e
         | Inr f \<Rightarrow> Inr (Sadcher (SadcherScheduler f)))
      else if name \<in> set [''rl_sadcher'', ''rl_sadcher_sampling''] then
        (case rl_sadcher_init env debugging checkpoint_path duration_norm location_norm of
           Some e \<Rightarrow> Inl e
         | None \<Rightarrow>
             Inr (RLSadcherScheduler debugging checkpoint_path duration_norm location_norm))
      else if name = ''stochastic_IL_sadcher'' then
        (case sadcher_init env debugging checkpoint_path duration_norm location_norm of
           Inl e \<Rightarrow> Inl e
         | Inr f \<Rightarrow> Inr (Sadcher (StochasticILSadcherScheduler f sd)))
      else Inl (ValueError (''Unknown scheduler '' @ quoted name)))"

section \<open>run_one_simulation\<close>

text \<open>\<open>np.max(row)\<close> raises on an empty row; \<open>T_t[task]\<close> raises out of range.\<close>

definition np_max :: "real list \<Rightarrow> error + real" where
  "np_max row = (case row of [] \<Rightarrow> Inl (ValueError ''zero-size array'') | x # xs \<Rightarrow> Inr (fold max xs x))"

fun max_travel_times :: "matrix \<Rightarrow> nat list \<Rightarrow> error + real list" where
  "max_travel_times tt [] = Inr []"
| "max_travel_times tt (i # rest) =
     (if length tt \<le> i then Inl IndexError
      else case np_max (tt ! i) of
             Inl e \<Rightarrow> Inl e
           | Inr m \<Rightarrow>
              (case max_travel_times tt rest of
                 Inl e \<Rightarrow> Inl e
               | Inr ms \<Rightarrow> Inr (m # ms)))"

definition worst_case_makespan :: "problem_instance \<Rightarrow> error + real" where
  "worst_case_makespan p =
     (case max_travel_times (T_t p) [0 ..< length (T_e p)] of
        Inl e \<Rightarrow> Inl e
      | Inr ms \<Rightarrow> Inr (sum_list (T_e p) + sum_list ms))"

text \<open>
  Binding the arguments of a call to the parameters of a \<open>def\<close> without \<open>*args\<close> or
  \<open>**kwargs\<close>: too many positional arguments, a keyword that is no parameter, or a
  keyword for a parameter already given by position raise \<open>TypeError\<close> before the body
  runs.
\<close>

definition bind_call :: "string \<Rightarrow> string list \<Rightarrow> nat \<Rightarrow> string list \<Rightarrow> error + unit" where
  "bind_call f params n_positional keywords =
     (if length params < n_positional
      then Inl (TypeError (f @ ''() takes too many positional arguments''))
      else case find (\<lambda>k. k \<notin> set params) keywords of
             Some k \<Rightarrow>
               Inl (TypeError (f @ ''() got an unexpected keyword argument '' @ quoted k))
           | None \<Rightarrow>
              (case find (\<lambda>k. k \<in> set (take n_positional params)) keywords of
                 Some k \<Rightarrow>
                   Inl (TypeError (f @ ''() got multiple values for argument '' @ quoted k))
               | None \<Rightarrow> Inr ()))"

definition create_scheduler_params :: "string list" where
  "create_scheduler_params =
     [''name'', ''checkpoint_path'', ''duration_normalization'', ''location_normalization'',
      ''debugging'', ''stddev'']"

text \<open>\<open>isinstance(scheduler, SadcherScheduler)\<close>.\<close>

definition isinstance_sadcher :: "env \<Rightarrow> scheduler \<Rightarrow> bool" where
  "isinstance_sadcher env scheduler =
     (case scheduler of
        Sadcher _ \<Rightarrow> True
      | RLSadcherScheduler _ _ _ _ \<Rightarrow> rl_is_sadcher env
      | _ \<Rightarrow> False)"

record loop_state =
  ls_sim :: simulation
  ls_scheduler :: scheduler
  ls_times :: "real list"
  ls_ticks :: nat

text \<open>
  One decision point of the loop: the scheduler's call (for the Sadcher family the
  returned pair is unpacked and the reward goes to \<open>find_highest_non_idle_reward\<close>),
  the commit \<open>assign_tasks_to_robots\<close>, and the step to the next decision point.
\<close>

definition scheduler_call ::
  "env \<Rightarrow> scheduler \<Rightarrow> simulation \<Rightarrow> error + retval \<times> simulation \<times> scheduler" where
  "scheduler_call env scheduler sim =
     (case scheduler of
        Sadcher s \<Rightarrow>
          (case calculate_robot_assignment env s sim of
             Inl e \<Rightarrow> Inl e
           | Inr out \<Rightarrow> Inr (ret out, sim_after out, Sadcher (scheduler_after out)))
      | _ \<Rightarrow>
          (case other_calculate_robot_assignment env scheduler sim of
             Inl e \<Rightarrow> Inl e
           | Inr (v, sim') \<Rightarrow> Inr (v, sim', scheduler)))"

definition decision_point :: "env \<Rightarrow> loop_state \<Rightarrow> error + loop_state" where
  "decision_point env st =
     (case scheduler_call env (ls_scheduler st) (ls_sim st) of
        Inl e \<Rightarrow> Inl e
      | Inr (v, sim1, scheduler') \<Rightarrow>
          (let unpacked =
                 (if isinstance_sadcher env (ls_scheduler st)
                  then (case v of
                          RetTuple predicted_reward instantaneous_schedule \<Rightarrow>
                            Inr (RetSchedule instantaneous_schedule,
                                 find_highest_non_idle_reward env sim1 predicted_reward)
                        | RetSchedule _ \<Rightarrow> Inl (TypeError ''cannot unpack''))
                  else Inr (v, sim1))
           in case unpacked of
                Inl e \<Rightarrow> Inl e
              | Inr (instantaneous_schedule, sim2) \<Rightarrow>
                  Inr \<lparr>ls_sim = step_until_next_decision_point env
                                  (assign_tasks_to_robots env sim2 instantaneous_schedule),
                       ls_scheduler = scheduler',
                       ls_times = ls_times st
                                  @ [clock env (Suc (ls_ticks st)) - clock env (ls_ticks st)],
                       ls_ticks = ls_ticks st + 2\<rparr>))"

text \<open>
  The \<open>while not sim.sim_done\<close> loop, which need not end: \<open>None\<close> is a run that never
  returns. The result is \<open>(sim.makespan, feasible, current_run_computation_times)\<close>.
\<close>

partial_function (option) simulation_loop ::
  "env \<Rightarrow> real \<Rightarrow> loop_state \<Rightarrow> (error + real \<times> bool \<times> real list) option" where
  "simulation_loop env worst_case st =
     (if sim_done (ls_sim st) then Some (Inr (makespan (ls_sim st), True, ls_times st))
      else case decision_point env st of
             Inl e \<Rightarrow> Some (Inl e)
           | Inr st' \<Rightarrow>
               if worst_case < timestep (ls_sim st')
               then Some (Inr (worst_case, False, ls_times st'))
               else simulation_loop env worst_case st')"

definition run_one_simulation ::
  "env \<Rightarrow> problem_instance \<Rightarrow> string \<Rightarrow> pyarg \<Rightarrow> (error + real \<times> bool \<times> real list) option" where
  "run_one_simulation env problem scheduler_name checkpoint_path =
     (case worst_case_makespan problem of
        Inl e \<Rightarrow> Some (Inl e)
      | Inr worst_case \<Rightarrow>
         (case Simulation env problem scheduler_name of
            Inl e \<Rightarrow> Some (Inl e)
          | Inr sim \<Rightarrow>
             (case bind_call ''create_scheduler'' create_scheduler_params 2
                     [''model_name'', ''duration_normalization'', ''location_normalization'',
                      ''stddev''] of
                Inl e \<Rightarrow> Some (Inl e)
              | Inr _ \<Rightarrow>
                 (case create_scheduler env scheduler_name checkpoint_path
                         (duration_normalization sim) (location_normalization sim) False (1 / 2) of
                    Inl e \<Rightarrow> Some (Inl e)
                  | Inr scheduler \<Rightarrow>
                      simulation_loop env worst_case
                        \<lparr>ls_sim = sim, ls_scheduler = scheduler, ls_times = [], ls_ticks = 0\<rparr>))))"

section \<open>Reading a returned value\<close>

text \<open>\<open>isinstance(v, Instantaneous_Schedule)\<close>, and the components of a returned value.\<close>

definition is_schedule :: "retval \<Rightarrow> bool" where
  "is_schedule v = (case v of RetSchedule _ \<Rightarrow> True | RetTuple _ _ \<Rightarrow> False)"

definition reward_of :: "retval \<Rightarrow> matrix option" where
  "reward_of v = (case v of RetSchedule _ \<Rightarrow> None | RetTuple m _ \<Rightarrow> Some m)"

definition robot_assignments :: "retval \<Rightarrow> (nat \<rightharpoonup> nat)" where
  "robot_assignments v =
     (case v of
        RetSchedule (Instantaneous_Schedule a) \<Rightarrow> a
      | RetTuple _ (Instantaneous_Schedule a) \<Rightarrow> a)"

text \<open>What a call that did not raise shows: \<open>None\<close> stands for a raised exception.\<close>

definition observed_calls :: "error + outcome \<Rightarrow> call list option" where
  "observed_calls r = (case r of Inl _ \<Rightarrow> None | Inr out \<Rightarrow> Some (calls out))"

definition observed_assignment :: "error + outcome \<Rightarrow> nat \<Rightarrow> nat option" where
  "observed_assignment r robot =
     (case r of Inl _ \<Rightarrow> None | Inr out \<Rightarrow> robot_assignments (ret out) robot)"

definition observed_reward :: "error + outcome \<Rightarrow> matrix option" where
  "observed_reward r = (case r of Inl _ \<Rightarrow> None | Inr out \<Rightarrow> reward_of (ret out))"

definition observed_is_schedule :: "error + outcome \<Rightarrow> bool option" where
  "observed_is_schedule r =
     (case r of Inl _ \<Rightarrow> None | Inr out \<Rightarrow> Some (is_schedule (ret out)))"

definition observed_current_tasks :: "error + outcome \<Rightarrow> nat option list option" where
  "observed_current_tasks r =
     (case r of
        Inl _ \<Rightarrow> None
      | Inr out \<Rightarrow> Some (map (\<lambda>rb. map_option task_id (current_task rb)) (robots (sim_after out))))"

text \<open>The entries of a reward row that belong to no sentinel column.\<close>

definition non_sentinel :: "real list \<Rightarrow> real list" where
  "non_sentinel row = butlast (tl row)"

section \<open>Assignment filters\<close>

text \<open>
  Modelled from the spec: \<open>schedulers/filtering_assignments.py\<close>, with
  \<open>filter_redundant_assignments\<close> and \<open>filter_overassignments\<close>, is not part of the
  sources. The definitions follow section 4.4 of the specification. A pair is an item
  of the raw matching result with value 1. The first pass removes a pair whose robot is
  already committed to its task (the robot's \<open>current_task\<close>), and a pair whose task is
  also claimed by a pair with a lower robot index. The second pass keeps, for each task,
  only the capacity-many pairs of highest reward, and then, for each robot, only its
  pair of highest reward. The specification does not say where the rewards and the
  capacities come from, nor how equal rewards are ordered: they are parameters here, and
  equal rewards are ordered by the lower robot index (for a task) and the lower task
  index (for a robot).
\<close>

definition committed :: "simulation \<Rightarrow> nat \<Rightarrow> nat \<Rightarrow> bool" where
  "committed sim r t =
     list_ex (\<lambda>rb. robot_id rb = r \<and>
                   (case current_task rb of None \<Rightarrow> False | Some tk \<Rightarrow> task_id tk = t))
             (robots sim)"

definition claimed_lower :: "solution \<Rightarrow> nat \<Rightarrow> nat \<Rightarrow> bool" where
  "claimed_lower sol r t = list_ex (\<lambda>((r', t'), v'). v' = 1 \<and> t' = t \<and> r' < r) sol"

definition filter_redundant_assignments :: "solution \<Rightarrow> simulation \<Rightarrow> solution" where
  "filter_redundant_assignments sol sim =
     filter (\<lambda>((r, t), v). v = 1 \<longrightarrow> \<not> committed sim r t \<and> \<not> claimed_lower sol r t) sol"

definition better_for_task :: "(nat \<Rightarrow> nat \<Rightarrow> real) \<Rightarrow> nat \<Rightarrow> nat \<Rightarrow> nat \<Rightarrow> bool" where
  "better_for_task reward t r' r =
     (reward r t < reward r' t \<or> (reward r' t = reward r t \<and> r' < r))"

definition better_for_robot :: "(nat \<Rightarrow> nat \<Rightarrow> real) \<Rightarrow> nat \<Rightarrow> nat \<Rightarrow> nat \<Rightarrow> bool" where
  "better_for_robot reward r t' t =
     (reward r t < reward r t' \<or> (reward r t' = reward r t \<and> t' < t))"

definition rivals_for_task :: "(nat \<Rightarrow> nat \<Rightarrow> real) \<Rightarrow> solution \<Rightarrow> nat \<Rightarrow> nat \<Rightarrow> solution" where
  "rivals_for_task reward sol r t =
     filter (\<lambda>((r', t'), v'). v' = 1 \<and> t' = t \<and> better_for_task reward t r' r) sol"

definition capacity_pass ::
  "(nat \<Rightarrow> nat \<Rightarrow> real) \<Rightarrow> (nat \<Rightarrow> nat) \<Rightarrow> solution \<Rightarrow> solution" where
  "capacity_pass reward capacity sol =
     filter (\<lambda>((r, t), v). v = 1 \<longrightarrow> length (rivals_for_task reward sol r t) < capacity t) sol"

definition has_better_pair :: "(nat \<Rightarrow> nat \<Rightarrow> real) \<Rightarrow> solution \<Rightarrow> nat \<Rightarrow> nat \<Rightarrow> bool" where
  "has_better_pair reward sol r t =
     list_ex (\<lambda>((r', t'), v'). v' = 1 \<and> r' = r \<and> better_for_robot reward r t' t) sol"

definition robot_pass :: "(nat \<Rightarrow> nat \<Rightarrow> real) \<Rightarrow> solution \<Rightarrow> solution" where
  "robot_pass reward sol =
     filter (\<lambda>((r, t), v). v = 1 \<longrightarrow> \<not> has_better_pair reward sol r t) sol"

definition filter_overassignments ::
  "(nat \<Rightarrow> nat \<Rightarrow> real) \<Rightarrow> (nat \<Rightarrow> nat) \<Rightarrow> solution \<Rightarrow> simulation \<Rightarrow> solution" where
  "filter_overassignments reward capacity sol sim =
     robot_pass reward (capacity_pass reward capacity sol)"

section \<open>Concrete inputs\<close>

text \<open>An environment whose reward model gives every robot one row, empty or fixed.\<close>

definition env0 :: env where
  "env0 =
     \<lparr>task_feature_vector = (\<lambda>t ln dn. [real (task_id t)]),
      robot_feature_vector = (\<lambda>r ln dn. [real (robot_id r)]),
      trained_model = (\<lambda>st rf tf adj. map (\<lambda>r. map (\<lambda>t. - 1) tf) rf),
      randn = (\<lambda>i j. - 3),
      matcher_solve = (\<lambda>m rew. ([], m)),
      ext_filter_redundant_assignments = (\<lambda>sol sim. sol),
      ext_filter_overassignments = (\<lambda>sol sim. sol),
      torch_load = (\<lambda>path. Inr (Dict [])),
      scheduler_network_state = [],
      rl_sadcher_init = (\<lambda>dbg cp dn ln. None),
      rl_is_sadcher = False,
      Simulation = (\<lambda>p name.
         Inr \<lparr>robots = [], tasks = [], task_adjacency = [],
              duration_normalization = 100, location_normalization = 100,
              sim_done = False, timestep = 0, makespan = 0\<rparr>),
      other_calculate_robot_assignment =
         (\<lambda>sch sim. Inr (RetSchedule (Instantaneous_Schedule Map.empty), sim)),
      find_highest_non_idle_reward = (\<lambda>sim m. sim),
      assign_tasks_to_robots = (\<lambda>sim v. sim),
      step_until_next_decision_point = (\<lambda>sim. sim\<lparr>timestep := timestep sim + 1\<rparr>),
      clock = (\<lambda>n. real n)\<rparr>"

definition sadcher0 :: sadcher where
  "sadcher0 =
     \<lparr>debug = False, sched_duration_normalization = 100,
      sched_location_normalization = 100, trained_model_state = [],
      bipartite_matcher = None\<rparr>"

definition mk_task :: "nat \<Rightarrow> bool \<Rightarrow> string \<Rightarrow> task" where
  "mk_task i inc st = \<lparr>task_id = i, incomplete = inc, status = st\<rparr>"

definition mk_robot :: "nat \<Rightarrow> bool \<Rightarrow> robot" where
  "mk_robot i av = \<lparr>robot_id = i, available = av, current_task = None\<rparr>"

definition mk_sim :: "robot list \<Rightarrow> task list \<Rightarrow> simulation" where
  "mk_sim rs ts =
     \<lparr>robots = rs, tasks = ts, task_adjacency = [],
      duration_normalization = 100, location_normalization = 100,
      sim_done = False, timestep = 0, makespan = 0\<rparr>"

text \<open>
  Only the end task is left, pending; robot 0 is available and robot 1 is busy.
\<close>

definition sim_end_game :: simulation where
  "sim_end_game =
     mk_sim [mk_robot 0 True, mk_robot 1 False]
       [mk_task 0 False ''DONE'', mk_task 1 False ''DONE'', mk_task 2 True ''PENDING'']"

text \<open>The same snapshot once the end task has been started: incomplete, not pending.\<close>

definition sim_end_active :: simulation where
  "sim_end_active =
     mk_sim [mk_robot 0 True, mk_robot 1 False]
       [mk_task 0 False ''DONE'', mk_task 1 False ''DONE'', mk_task 2 True ''ACTIVE'']"

text \<open>Start sentinel, two pending real tasks, end sentinel; both robots available.\<close>

definition sim_two_tasks :: simulation where
  "sim_two_tasks =
     mk_sim [mk_robot 0 True, mk_robot 1 True]
       [mk_task 0 False ''DONE'', mk_task 1 True ''PENDING'', mk_task 2 True ''PENDING'',
        mk_task 3 True ''PENDING'']"

text \<open>
  A raw matching result: robots 0 and 1 both claim task 1, robot 1 also claims task 2,
  and the pair of robot 0 and the end task 3 is not selected.
\<close>

definition raw_solution :: solution where
  "raw_solution = [((0, 1), 1), ((1, 1), 1), ((1, 2), 1), ((0, 3), 0)]"

definition pair_reward :: "nat \<Rightarrow> nat \<Rightarrow> real" where
  "pair_reward r t = (if r = 1 \<and> t = 1 then 5 else if r = 0 \<and> t = 1 then 3 else 2)"

text \<open>
  \<open>n\<close> passes through the body of the \<open>while\<close> loop that leave it running: the
  simulation is not done, the decision point raises nothing and the timestep it leaves is
  not above the bound.
\<close>

fun quiet_steps :: "env \<Rightarrow> real \<Rightarrow> nat \<Rightarrow> loop_state \<Rightarrow> loop_state option" where
  "quiet_steps env worst_case 0 st = Some st"
| "quiet_steps env worst_case (Suc n) st =
     (if sim_done (ls_sim st) then None
      else case decision_point env st of
             Inl e \<Rightarrow> None
           | Inr st' \<Rightarrow>
               if worst_case < timestep (ls_sim st') then None
               else quiet_steps env worst_case n st')"



text \<open>
  A run of the greedy scheduler from time 0 in \<open>env0\<close>, where every step to the next
  decision point takes one unit of time, and a problem whose worst-case bound is \<open>3/2\<close>.
\<close>

definition loop_start :: loop_state where
  "loop_start =
     \<lparr>ls_sim = mk_sim [] [], ls_scheduler = GreedyInstantaneousScheduler,
      ls_times = [], ls_ticks = 0\<rparr>"

definition short_problem :: problem_instance where
  "short_problem = \<lparr>T_e = [1], T_t = [[1 / 4, 1 / 2]]\<rparr>"

section \<open>Facts about the two paths\<close>

lemmas example_defs =
  sim_end_game_def sim_end_active_def sim_two_tasks_def mk_sim_def mk_task_def mk_robot_def
  sadcher0_def env0_def

lemma end_game_assignments_lookup:
  "end_game_assignments t rs acc x =
     (if x \<in> robot_id ` set rs then Some (task_id t) else acc x)"
  by (induction rs arbitrary: acc) auto

lemma end_game_robots_frame:
  "map robot_id (end_game_robots t rs) = map robot_id rs \<and>
   map available (end_game_robots t rs) = map available rs \<and>
   map current_task (end_game_robots t rs) =
     map (\<lambda>r. if available r then Some t else current_task r) rs"
  by (simp add: end_game_robots_def)

lemma general_path_Inr:
  assumes "general_path env sch sim = Inr out"
  shows "\<exists>sampled pr.
           sample_rewards env sch
             (clamp_min reward_floor
                (trained_model env (trained_model_state (attrs sch))
                   (snd (extract_task_robot_features env sch sim))
                   (fst (extract_task_robot_features env sch sim)) (task_adjacency sim))) = Inr sampled
         \<and> cat_start_end (length (robots sim)) sampled = Inr pr
         \<and> (\<exists>a. ret out = RetTuple pr (Instantaneous_Schedule a))
         \<and> sim_after out = sim
         \<and> set (calls out) \<subseteq> {OracleCall, MatcherInit, MatcherSolve pr}
         \<and> OracleCall \<in> set (calls out) \<and> MatcherSolve pr \<in> set (calls out)"
  using assms
  by (auto simp: general_path_def Let_def
           split: sum.splits prod.splits if_splits)

lemma not_end_game_general:
  assumes "calculate_robot_assignment env sch sim = Inr out"
    and "length (incomplete_tasks sim) \<noteq> 1"
  shows "general_path env sch sim = Inr out"
  using assms by (simp add: calculate_robot_assignment_def Let_def)

lemma returns_pair:
  assumes "calculate_robot_assignment env sch sim = Inr out"
  shows "\<exists>m a. ret out = RetTuple m (Instantaneous_Schedule a)"
proof (cases "length (incomplete_tasks sim) = 1")
  case True
  with assms show ?thesis by (auto simp: calculate_robot_assignment_def Let_def)
next
  case False
  from general_path_Inr [OF not_end_game_general [OF assms False]] show ?thesis by blast
qed

lemma cat_start_end_rows:
  "cat_start_end n m = Inr pr \<Longrightarrow>
     length pr = n \<and> (\<forall>row \<in> set pr. hd row = - 1000 \<and> last row = - 1000 \<and> 2 \<le> length row)"
  by (auto simp: cat_start_end_def split: if_splits)

lemma cat_start_end_mid:
  "cat_start_end n m = Inr pr \<Longrightarrow> map non_sentinel pr = m"
  by (auto simp: cat_start_end_def non_sentinel_def butlast_append map_idI split: if_splits)

lemma clamp_min_ge: "row \<in> set (clamp_min lo m) \<Longrightarrow> x \<in> set row \<Longrightarrow> lo \<le> x"
  by (auto simp: clamp_min_def)

lemma sample_rewards_ge:
  assumes "sample_rewards env sch m = Inr s"
    and "\<forall>row \<in> set m. \<forall>x \<in> set row. reward_floor \<le> x"
  shows "\<forall>row \<in> set s. \<forall>x \<in> set row. reward_floor \<le> x"
  using assms
  by (auto simp: sample_rewards_def clamp_min_def split: sadcher_scheduler.splits sum.splits)

lemma end_game_example:
  "calculate_robot_assignment env0 (SadcherScheduler sadcher0) sim_end_game =
     Inr \<lparr>ret = RetTuple [[0, 0, 0], [0, 0, 0]] (Instantaneous_Schedule [0 \<mapsto> 2]),
          sim_after = sim_end_game
            \<lparr>robots := [(mk_robot 0 True)\<lparr>current_task := Some (mk_task 2 True ''PENDING'')\<rparr>,
                         mk_robot 1 False]\<rparr>,
          scheduler_after = SadcherScheduler sadcher0,
          calls = []\<rparr>"
  by (simp add: calculate_robot_assignment_def Let_def incomplete_tasks_def available_robots_def
        end_game_robots_def zeros_def numeral_2_eq_2 numeral_3_eq_3 sim_end_game_def mk_sim_def
        mk_task_def mk_robot_def)

lemma general_example:
  "\<exists>a. calculate_robot_assignment env0 (StochasticILSadcherScheduler sadcher0 (1 / 2)) sim_two_tasks =
     Inr \<lparr>ret = RetTuple [[- 1000, 1 / 1000000, - 1000], [- 1000, 1 / 1000000, - 1000]]
                  (Instantaneous_Schedule a),
          sim_after = sim_two_tasks,
          scheduler_after =
            StochasticILSadcherScheduler
              (sadcher0\<lparr>bipartite_matcher := Some (CachedBipartiteMatcher sim_two_tasks)\<rparr>) (1 / 2),
          calls = [OracleCall, MatcherInit,
                   MatcherSolve [[- 1000, 1 / 1000000, - 1000], [- 1000, 1 / 1000000, - 1000]]]\<rparr>"
  by (simp add: calculate_robot_assignment_def general_path_def incomplete_tasks_def example_defs
        extract_task_robot_features_def slice_1_minus2_def attrs_def clamp_min_def
        sample_rewards_def torch_normal_def reward_floor_def cat_start_end_def Let_def
        with_attrs_def)

section \<open>The end-game shortcut\<close>

text \<open>
  C1 (amended). The shortcut is taken when exactly one task is both incomplete and
  \<open>PENDING\<close> (the list \<open>incomplete_tasks\<close> of the source). Then
  \<open>calculate_robot_assignment\<close> returns without raising, makes no call to the reward
  model or the matcher, leaves the scheduler as it was, assigns every available robot to
  that task and no other robot to anything, and its outcome is the same whatever the
  reward model, the matcher and the filters are.
\<close>

theorem end_game_assigns_all_available:
  assumes "length (incomplete_tasks sim) = 1"
  shows "\<exists>out. calculate_robot_assignment env sch sim = Inr out \<and>
           calls out = [] \<and> scheduler_after out = sch \<and>
           (\<forall>r \<in> set (robots sim). available r \<longrightarrow>
              robot_assignments (ret out) (robot_id r) =
                Some (task_id (hd (incomplete_tasks sim)))) \<and>
           dom (robot_assignments (ret out)) = robot_id ` set (available_robots sim) \<and>
           (\<forall>env'. calculate_robot_assignment env' sch sim = Inr out)"
  using assms
  by (auto simp: calculate_robot_assignment_def Let_def robot_assignments_def
        end_game_assignments_lookup available_robots_def dom_def)

theorem end_game_assigns_all_available_witness:
  "length (incomplete_tasks sim_end_game) = 1 \<and>
   (\<exists>out. calculate_robot_assignment env0 (SadcherScheduler sadcher0) sim_end_game = Inr out \<and>
      calls out = [] \<and>
      robot_assignments (ret out) 0 = Some 2 \<and> robot_assignments (ret out) 1 = None)"
proof -
  have h: "length (incomplete_tasks sim_end_game) = 1"
    by (simp add: incomplete_tasks_def example_defs)
  from end_game_assigns_all_available [OF h, of env0 "SadcherScheduler sadcher0"]
  obtain out where
    o: "calculate_robot_assignment env0 (SadcherScheduler sadcher0) sim_end_game = Inr out"
      "calls out = []"
      "\<forall>r \<in> set (robots sim_end_game). available r \<longrightarrow>
         robot_assignments (ret out) (robot_id r) =
           Some (task_id (hd (incomplete_tasks sim_end_game)))"
      "dom (robot_assignments (ret out)) = robot_id ` set (available_robots sim_end_game)"
    by blast
  from o(3) have "robot_assignments (ret out) 0 = Some 2"
    by (simp add: incomplete_tasks_def example_defs)
  moreover from o(4) have "robot_assignments (ret out) 1 = None"
    by (auto simp: available_robots_def example_defs dom_def)
  ultimately show ?thesis using h o(1,2) by blast
qed

text \<open>
  C1 as stated fails: in \<open>sim_end_active\<close> exactly one task is incomplete, but it is
  not \<open>PENDING\<close>, so \<open>incomplete_tasks\<close> is empty, the general path runs, the reward
  model and the matcher are called, and the available robot 0 is assigned nothing.
\<close>

theorem one_incomplete_task_counterexample:
  "length (filter incomplete (tasks sim_end_active)) = 1 \<and>
   observed_calls (calculate_robot_assignment env0 (SadcherScheduler sadcher0) sim_end_active)
     = Some [OracleCall, MatcherInit, MatcherSolve [[- 1000, - 1000], [- 1000, - 1000]]] \<and>
   observed_assignment
     (calculate_robot_assignment env0 (SadcherScheduler sadcher0) sim_end_active) 0 = None"
  by (simp add: calculate_robot_assignment_def general_path_def incomplete_tasks_def example_defs
        extract_task_robot_features_def slice_1_minus2_def attrs_def clamp_min_def
        sample_rewards_def cat_start_end_def Let_def with_attrs_def robot_assignments_def
        observed_calls_def observed_assignment_def)

section \<open>What a decision changes and returns\<close>

text \<open>
  C2 (amended). \<open>calculate_robot_assignment\<close> never changes a task, a robot's identity
  or availability, or any field of the simulation state other than the robots'
  current-task links. On the general path it changes nothing of the snapshot. On the
  end-game path it sets the current-task link of every available robot to the remaining
  task before it returns, and leaves the link of every other robot as it was.
\<close>

theorem assignment_changes_only_end_game_links:
  assumes "calculate_robot_assignment env sch sim = Inr out"
  shows "sim_after out = sim\<lparr>robots := robots (sim_after out)\<rparr> \<and>
         map robot_id (robots (sim_after out)) = map robot_id (robots sim) \<and>
         map available (robots (sim_after out)) = map available (robots sim) \<and>
         (length (incomplete_tasks sim) \<noteq> 1 \<longrightarrow> sim_after out = sim) \<and>
         (length (incomplete_tasks sim) = 1 \<longrightarrow>
            map current_task (robots (sim_after out)) =
            map (\<lambda>r. if available r then Some (hd (incomplete_tasks sim)) else current_task r)
                (robots sim))"
proof (cases "length (incomplete_tasks sim) = 1")
  case True
  with assms have
    "sim_after out = sim\<lparr>robots := end_game_robots (hd (incomplete_tasks sim)) (robots sim)\<rparr>"
    by (auto simp: calculate_robot_assignment_def Let_def)
  with True show ?thesis by (simp add: end_game_robots_frame)
next
  case False
  from general_path_Inr [OF not_end_game_general [OF assms False]]
  have "sim_after out = sim" by blast
  with False show ?thesis by simp
qed

theorem assignment_changes_only_end_game_links_witness:
  "\<exists>out. calculate_robot_assignment env0 (SadcherScheduler sadcher0) sim_end_game = Inr out \<and>
     tasks (sim_after out) = tasks sim_end_game \<and>
     map robot_id (robots (sim_after out)) = [0, 1] \<and>
     map available (robots (sim_after out)) = [True, False] \<and>
     map current_task (robots (sim_after out)) = [Some (mk_task 2 True ''PENDING''), None]"
proof -
  obtain out where
    o: "calculate_robot_assignment env0 (SadcherScheduler sadcher0) sim_end_game = Inr out"
    using end_game_example by blast
  have h: "length (incomplete_tasks sim_end_game) = 1"
    by (simp add: incomplete_tasks_def example_defs)
  from assignment_changes_only_end_game_links [OF o] h have
    f: "sim_after out = sim_end_game\<lparr>robots := robots (sim_after out)\<rparr>"
       "map robot_id (robots (sim_after out)) = map robot_id (robots sim_end_game)"
       "map available (robots (sim_after out)) = map available (robots sim_end_game)"
       "map current_task (robots (sim_after out)) =
          map (\<lambda>r. if available r then Some (hd (incomplete_tasks sim_end_game))
                    else current_task r) (robots sim_end_game)"
    by blast+
  from f(1) have "tasks (sim_after out) = tasks (sim_end_game\<lparr>robots := robots (sim_after out)\<rparr>)"
    by simp
  then have "tasks (sim_after out) = tasks sim_end_game" by simp
  moreover from f(2) have "map robot_id (robots (sim_after out)) = [0, 1]"
    by (simp add: example_defs)
  moreover from f(3) have "map available (robots (sim_after out)) = [True, False]"
    by (simp add: example_defs)
  moreover from f(4) have
    "map current_task (robots (sim_after out)) = [Some (mk_task 2 True ''PENDING''), None]"
    by (simp add: incomplete_tasks_def example_defs)
  ultimately show ?thesis using o by (intro exI [of _ out]) simp
qed

text \<open>
  C2 as stated fails: in \<open>sim_end_game\<close> no robot has a current task, and after the
  call, before anything is committed through \<open>assign_tasks_to_robots\<close>, the available
  robot 0 is linked to the end task 2.
\<close>

theorem link_mutated_counterexample:
  "map current_task (robots sim_end_game) = [None, None] \<and>
   observed_current_tasks
     (calculate_robot_assignment env0 (SadcherScheduler sadcher0) sim_end_game)
     = Some [Some 2, None]"
  by (simp add: end_game_example observed_current_tasks_def)
     (simp add: example_defs)

text \<open>
  C4 (amended). Both variants of the Sadcher family return, at every snapshot where
  they return, a pair of the reward matrix and an Instantaneous Schedule, never the
  schedule alone; \<open>run_one_simulation\<close> unpacks the pair for an instance of
  \<open>SadcherScheduler\<close>, hands the matrix to \<open>find_highest_non_idle_reward\<close> and commits
  the schedule. What a scheduler of any other class returns is committed as it is.
\<close>

theorem sadcher_returns_reward_and_schedule:
  assumes "calculate_robot_assignment env sch sim = Inr out"
  shows "\<not> is_schedule (ret out) \<and>
     (\<exists>m a. ret out = RetTuple m (Instantaneous_Schedule a) \<and>
        (\<forall>st. ls_scheduler st = Sadcher sch \<and> ls_sim st = sim \<longrightarrow>
           (\<exists>st'. decision_point env st = Inr st' \<and>
              ls_sim st' = step_until_next_decision_point env
                 (assign_tasks_to_robots env
                    (find_highest_non_idle_reward env (sim_after out) m)
                    (RetSchedule (Instantaneous_Schedule a)))))) \<and>
     (\<forall>st v sim'.
        \<not> isinstance_sadcher env (ls_scheduler st) \<and>
        other_calculate_robot_assignment env (ls_scheduler st) (ls_sim st) = Inr (v, sim') \<longrightarrow>
        (\<exists>st'. decision_point env st = Inr st' \<and>
           ls_sim st' = step_until_next_decision_point env (assign_tasks_to_robots env sim' v)))"
proof -
  have other: "\<exists>st'. decision_point env st = Inr st' \<and>
           ls_sim st' = step_until_next_decision_point env (assign_tasks_to_robots env sim' v)"
    if "\<not> isinstance_sadcher env (ls_scheduler st) \<and>
        other_calculate_robot_assignment env (ls_scheduler st) (ls_sim st) = Inr (v, sim')"
    for st v sim'
    using that
    by (cases "ls_scheduler st")
       (simp_all add: decision_point_def scheduler_call_def isinstance_sadcher_def Let_def)
  from returns_pair [OF assms] obtain m a where
    r: "ret out = RetTuple m (Instantaneous_Schedule a)" by blast
  have "\<exists>st'. decision_point env st = Inr st' \<and>
              ls_sim st' = step_until_next_decision_point env
                 (assign_tasks_to_robots env
                    (find_highest_non_idle_reward env (sim_after out) m)
                    (RetSchedule (Instantaneous_Schedule a)))"
    if "ls_scheduler st = Sadcher sch \<and> ls_sim st = sim" for st
    using that assms r
    by (simp add: decision_point_def scheduler_call_def isinstance_sadcher_def Let_def)
  with r other show ?thesis by (auto simp: is_schedule_def)
qed

theorem sadcher_returns_reward_and_schedule_witness:
  "\<exists>out. calculate_robot_assignment env0 (SadcherScheduler sadcher0) sim_end_game = Inr out \<and>
     \<not> is_schedule (ret out) \<and> reward_of (ret out) = Some [[0, 0, 0], [0, 0, 0]]"
proof -
  obtain out where
    o: "calculate_robot_assignment env0 (SadcherScheduler sadcher0) sim_end_game = Inr out"
    and r: "reward_of (ret out) = Some [[0, 0, 0], [0, 0, 0]]"
    using end_game_example by (auto simp: reward_of_def)
  from sadcher_returns_reward_and_schedule [OF o] have "\<not> is_schedule (ret out)" by blast
  with o r show ?thesis by blast
qed

text \<open>
  C4 as stated fails: what \<open>SadcherScheduler.calculate_robot_assignment\<close> returns in
  \<open>sim_end_game\<close> is not a schedule.
\<close>

theorem not_a_schedule_counterexample:
  "observed_is_schedule
     (calculate_robot_assignment env0 (SadcherScheduler sadcher0) sim_end_game) = Some False"
  by (simp add: end_game_example observed_is_schedule_def is_schedule_def)

section \<open>The reward matrix\<close>

text \<open>
  C5. Whenever \<open>calculate_robot_assignment\<close>, of the deterministic or of the stochastic
  variant and for any spread, passes a reward matrix to the matcher, every entry of the
  matrix outside its first and last column is at least \<open>1e-6\<close>.
\<close>

theorem matcher_rewards_floor_clamped:
  assumes "calculate_robot_assignment env sch sim = Inr out"
    and "MatcherSolve m \<in> set (calls out)"
    and "row \<in> set m"
    and "x \<in> set (non_sentinel row)"
  shows "1 / 1000000 \<le> x"
proof -
  have "length (incomplete_tasks sim) \<noteq> 1"
    using assms(1,2) by (auto simp: calculate_robot_assignment_def Let_def split: if_splits)
  from general_path_Inr [OF not_end_game_general [OF assms(1) this]]
  obtain sampled pr where
    s: "sample_rewards env sch
          (clamp_min reward_floor
             (trained_model env (trained_model_state (attrs sch))
                (snd (extract_task_robot_features env sch sim))
                (fst (extract_task_robot_features env sch sim)) (task_adjacency sim))) = Inr sampled"
    and c: "cat_start_end (length (robots sim)) sampled = Inr pr"
    and cs: "set (calls out) \<subseteq> {OracleCall, MatcherInit, MatcherSolve pr}"
    by blast
  from cs assms(2) have "m = pr" by auto
  with cat_start_end_mid [OF c] assms(3) have "non_sentinel row \<in> set sampled"
    by force
  moreover have "\<forall>row \<in> set sampled. \<forall>x \<in> set row. reward_floor \<le> x"
    by (rule sample_rewards_ge [OF s]) (auto dest: clamp_min_ge)
  ultimately show ?thesis using assms(4) by (auto simp: reward_floor_def)
qed

theorem matcher_rewards_floor_clamped_witness:
  "\<exists>out. calculate_robot_assignment env0 (StochasticILSadcherScheduler sadcher0 (1 / 2))
            sim_two_tasks = Inr out \<and>
     MatcherSolve [[- 1000, 1 / 1000000, - 1000], [- 1000, 1 / 1000000, - 1000]]
       \<in> set (calls out) \<and>
     non_sentinel [- 1000, 1 / 1000000, - 1000] = [1 / 1000000] \<and>
     (1 / 1000000 :: real) \<le> 1 / 1000000"
proof -
  obtain out where
    o: "calculate_robot_assignment env0 (StochasticILSadcherScheduler sadcher0 (1 / 2))
          sim_two_tasks = Inr out"
    and c: "MatcherSolve [[- 1000, 1 / 1000000, - 1000], [- 1000, 1 / 1000000, - 1000]]
              \<in> set (calls out)"
    using general_example by auto
  have n: "non_sentinel [- 1000, 1 / 1000000, - 1000] = [1 / 1000000 :: real]"
    by (simp add: non_sentinel_def)
  have "(1 / 1000000 :: real) \<le> 1 / 1000000"
    by (rule matcher_rewards_floor_clamped [OF o c, of "[- 1000, 1 / 1000000, - 1000]"])
       (simp_all add: n)
  with o c n show ?thesis by blast
qed

text \<open>
  C6 (amended). The reward matrix a Sadcher scheduler returns has one row per robot. On
  the general path every row has at least two entries and its first and last entry are
  \<open>-1000\<close>. On the end-game path, where no matcher runs, every row consists of zeros,
  one per task, the sentinel columns included.
\<close>

theorem sentinel_columns_general_path:
  assumes "calculate_robot_assignment env sch sim = Inr out"
  shows "\<exists>m. reward_of (ret out) = Some m \<and> length m = length (robots sim) \<and>
         (length (incomplete_tasks sim) \<noteq> 1 \<longrightarrow>
            (\<forall>row \<in> set m. 2 \<le> length row \<and> hd row = - 1000 \<and> last row = - 1000)) \<and>
         (length (incomplete_tasks sim) = 1 \<longrightarrow>
            (\<forall>row \<in> set m. row = replicate (length (tasks sim)) 0))"
proof (cases "length (incomplete_tasks sim) = 1")
  case True
  with assms show ?thesis
    by (auto simp: calculate_robot_assignment_def Let_def reward_of_def zeros_def)
next
  case False
  from general_path_Inr [OF not_end_game_general [OF assms False]]
  obtain sampled pr a where
    c: "cat_start_end (length (robots sim)) sampled = Inr pr"
    and r: "ret out = RetTuple pr (Instantaneous_Schedule a)"
    by blast
  from cat_start_end_rows [OF c] r False show ?thesis
    by (auto simp: reward_of_def)
qed

theorem sentinel_columns_general_path_witness:
  "\<exists>out m. calculate_robot_assignment env0 (StochasticILSadcherScheduler sadcher0 (1 / 2))
            sim_two_tasks = Inr out \<and>
     reward_of (ret out) = Some m \<and> length m = 2 \<and>
     list_all (\<lambda>row. 2 \<le> length row \<and> hd row = - 1000 \<and> last row = - 1000) m"
proof -
  obtain out where
    o: "calculate_robot_assignment env0 (StochasticILSadcherScheduler sadcher0 (1 / 2))
          sim_two_tasks = Inr out"
    using general_example by blast
  have h: "length (incomplete_tasks sim_two_tasks) \<noteq> 1"
    by (simp add: incomplete_tasks_def example_defs)
  have l: "length (robots sim_two_tasks) = 2"
    by (simp add: example_defs)
  from sentinel_columns_general_path [OF o] h l obtain m where
    "reward_of (ret out) = Some m" "length m = 2"
    "\<forall>row \<in> set m. 2 \<le> length row \<and> hd row = - 1000 \<and> last row = - 1000"
    by auto
  with o show ?thesis by (auto simp: list_all_iff)
qed

text \<open>
  C6 as stated fails: the reward matrix returned at the end-game decision point
  \<open>sim_end_game\<close> is all zeros, its first and last column included.
\<close>

theorem zero_sentinel_columns_counterexample:
  "observed_reward
     (calculate_robot_assignment env0 (SadcherScheduler sadcher0) sim_end_game)
     = Some [[0, 0, 0], [0, 0, 0]]"
  by (simp add: end_game_example observed_reward_def reward_of_def)


section \<open>Sampling\<close>

lemma normal_row_zero: "normal_row z 0 j r = r"
  by (induction r arbitrary: j) auto

lemma normal_rows_zero: "normal_rows z 0 i m = m"
  by (induction m arbitrary: i) (auto simp: normal_row_zero)

lemma clamp_min_id:
  "\<forall>row \<in> set m. \<forall>x \<in> set row. lo \<le> x \<Longrightarrow> clamp_min lo m = m"
  by (auto simp: clamp_min_def intro!: map_idI max.absorb1)

lemma sample_zero_spread:
  "\<forall>row \<in> set m. \<forall>x \<in> set row. reward_floor \<le> x \<Longrightarrow>
     sample_rewards env (StochasticILSadcherScheduler f 0) m = Inr m"
  by (simp add: sample_rewards_def torch_normal_def normal_rows_zero clamp_min_id)

text \<open>
  C9. For every reward matrix whose entries are at least the floor,
  \<open>StochasticILSadcherScheduler.sample_rewards\<close> with spread 0 and
  \<open>SadcherScheduler.sample_rewards\<close> both return the matrix unchanged. The two
  variants share every other step, so with spread 0 a decision of the stochastic
  variant returns the same value, leaves the same snapshot and makes the same calls as
  the deterministic one.
\<close>

theorem zero_spread_reproduces_reward:
  assumes "\<forall>row \<in> set m. \<forall>x \<in> set row. reward_floor \<le> x"
  shows "sample_rewards env (StochasticILSadcherScheduler f 0) m = Inr m \<and>
         sample_rewards env (SadcherScheduler f) m = Inr m \<and>
         map_sum id (\<lambda>out. (ret out, sim_after out, calls out))
           (calculate_robot_assignment env (StochasticILSadcherScheduler f 0) sim) =
         map_sum id (\<lambda>out. (ret out, sim_after out, calls out))
           (calculate_robot_assignment env (SadcherScheduler f) sim)"
proof -
  have a: "sample_rewards env (StochasticILSadcherScheduler f 0) m = Inr m"
    by (rule sample_zero_spread [OF assms])
  have b: "sample_rewards env (SadcherScheduler f) m = Inr m"
    by (simp add: sample_rewards_def)
  have s: "sample_rewards env (StochasticILSadcherScheduler f 0) (clamp_min reward_floor r)
             = Inr (clamp_min reward_floor r)" for r
    by (rule sample_zero_spread) (auto dest: clamp_min_ge)
  have s': "sample_rewards env (SadcherScheduler f) (clamp_min reward_floor r)
             = Inr (clamp_min reward_floor r)" for r
    by (simp add: sample_rewards_def)
  have e: "extract_task_robot_features env (StochasticILSadcherScheduler f 0) sim =
           extract_task_robot_features env (SadcherScheduler f) sim"
    by (simp add: extract_task_robot_features_def attrs_def)
  have g: "map_sum id (\<lambda>out. (ret out, sim_after out, calls out))
             (general_path env (StochasticILSadcherScheduler f 0) sim) =
           map_sum id (\<lambda>out. (ret out, sim_after out, calls out))
             (general_path env (SadcherScheduler f) sim)"
    unfolding general_path_def e
    by (auto simp: Let_def split_def s s' attrs_def split: sum.splits)
  have c: "map_sum id (\<lambda>out. (ret out, sim_after out, calls out))
             (calculate_robot_assignment env (StochasticILSadcherScheduler f 0) sim) =
           map_sum id (\<lambda>out. (ret out, sim_after out, calls out))
             (calculate_robot_assignment env (SadcherScheduler f) sim)"
    using g by (simp add: calculate_robot_assignment_def Let_def)
  from a b c show ?thesis by blast
qed

theorem zero_spread_reproduces_reward_witness:
  "sample_rewards env0 (StochasticILSadcherScheduler sadcher0 0) [[1 / 1000000, 2], [5, 1]]
     = Inr [[1 / 1000000, 2], [5, 1]] \<and>
   sample_rewards env0 (SadcherScheduler sadcher0) [[1 / 1000000, 2], [5, 1]]
     = Inr [[1 / 1000000, 2], [5, 1]]"
proof -
  have "\<forall>row \<in> set [[1 / 1000000, 2], [5, 1 :: real]]. \<forall>x \<in> set row. reward_floor \<le> x"
    by (simp add: reward_floor_def)
  from zero_spread_reproduces_reward [OF this, of env0 sadcher0] show ?thesis by blast
qed

section \<open>Feature extraction\<close>

text \<open>
  C7 (amended). Task features are extracted for the tasks \<open>sim.tasks[1:-2]\<close>, in
  order: every task but the first and the last two, so \<open>len(sim.tasks) - 3\<close> of them.
  Robot features are extracted for every robot, in order.
\<close>

theorem features_for_task_slice_and_all_robots:
  "length (fst (extract_task_robot_features env sch sim)) = length (tasks sim) - 3 \<and>
   (\<forall>i < length (tasks sim) - 3.
      fst (extract_task_robot_features env sch sim) ! i =
        task_feature_vector env (tasks sim ! Suc i)
          (sched_location_normalization (attrs sch))
          (sched_duration_normalization (attrs sch))) \<and>
   length (snd (extract_task_robot_features env sch sim)) = length (robots sim) \<and>
   (\<forall>j < length (robots sim).
      snd (extract_task_robot_features env sch sim) ! j =
        robot_feature_vector env (robots sim ! j)
          (sched_location_normalization (attrs sch))
          (sched_duration_normalization (attrs sch)))"
  by (simp add: extract_task_robot_features_def slice_1_minus2_def)

theorem features_for_task_slice_and_all_robots_witness:
  "length (fst (extract_task_robot_features env0 (SadcherScheduler sadcher0) sim_two_tasks)) = 1 \<and>
   fst (extract_task_robot_features env0 (SadcherScheduler sadcher0) sim_two_tasks) ! 0 = [1] \<and>
   length (snd (extract_task_robot_features env0 (SadcherScheduler sadcher0) sim_two_tasks)) = 2"
proof -
  note t = features_for_task_slice_and_all_robots
             [of env0 "SadcherScheduler sadcher0" sim_two_tasks]
  have l: "length (tasks sim_two_tasks) - 3 = 1" "length (robots sim_two_tasks) = 2"
    by (simp_all add: example_defs)
  from t l have
    "length (fst (extract_task_robot_features env0 (SadcherScheduler sadcher0) sim_two_tasks)) = 1"
    by simp
  moreover from t l have
    "fst (extract_task_robot_features env0 (SadcherScheduler sadcher0) sim_two_tasks) ! 0 =
       task_feature_vector env0 (tasks sim_two_tasks ! Suc 0)
          (sched_location_normalization (attrs (SadcherScheduler sadcher0)))
          (sched_duration_normalization (attrs (SadcherScheduler sadcher0)))"
    by simp
  then have
    "fst (extract_task_robot_features env0 (SadcherScheduler sadcher0) sim_two_tasks) ! 0 = [1]"
    by (simp add: example_defs)
  moreover from t l have
    "length (snd (extract_task_robot_features env0 (SadcherScheduler sadcher0) sim_two_tasks)) = 2"
    by simp
  ultimately show ?thesis by simp
qed

text \<open>
  C7 as stated fails: \<open>sim_two_tasks\<close> has the start sentinel 0, the real tasks 1 and 2
  and the end sentinel 3; the non-sentinel tasks have the feature vectors \<open>[1]\<close> and
  \<open>[2]\<close>, but only \<open>[1]\<close> is extracted.
\<close>

theorem real_task_without_features_counterexample:
  "map (\<lambda>t. task_feature_vector env0 t 100 100) (butlast (tl (tasks sim_two_tasks)))
     = [[1], [2]] \<and>
   fst (extract_task_robot_features env0 (SadcherScheduler sadcher0) sim_two_tasks) = [[1]]"
  by (simp add: extract_task_robot_features_def slice_1_minus2_def attrs_def example_defs)

section \<open>The loop of run_one_simulation\<close>

lemma create_scheduler_call_rejected:
  "bind_call ''create_scheduler'' create_scheduler_params 2
     [''model_name'', ''duration_normalization'', ''location_normalization'', ''stddev'']
   = Inl (TypeError (''create_scheduler() got an unexpected keyword argument ''
                      @ quoted ''model_name''))"
  by (simp add: bind_call_def create_scheduler_params_def)

lemma np_max_Max:
  assumes "np_max row = Inr m"
  shows "row \<noteq> [] \<and> m = Max (set row)"
proof (cases row)
  case Nil
  with assms show ?thesis by (simp add: np_max_def)
next
  case (Cons x xs)
  with assms have "m = fold max xs x" by (simp add: np_max_def)
  also have "\<dots> = Max (set (x # xs))" by (rule Max.set_eq_fold [symmetric])
  finally show ?thesis using Cons by simp
qed

lemma max_travel_times_Inr:
  "max_travel_times tt is = Inr ms \<Longrightarrow>
     ms = map (\<lambda>i. Max (set (tt ! i))) is \<and> (\<forall>i \<in> set is. i < length tt \<and> tt ! i \<noteq> [])"
proof (induction "is" arbitrary: ms)
  case Nil
  then show ?case by simp
next
  case (Cons i rest)
  then show ?case
    by (auto split: if_splits sum.splits dest: np_max_Max)
qed

lemma worst_case_makespan_value:
  assumes "worst_case_makespan problem = Inr worst_case"
  shows "worst_case = sum_list (T_e problem) +
           (\<Sum>i\<leftarrow>[0 ..< length (T_e problem)]. Max (set (T_t problem ! i)))"
  using assms
  by (auto simp: worst_case_makespan_def split: sum.splits dest: max_travel_times_Inr)

lemma simulation_loop_caps_makespan:
  assumes "\<not> sim_done (ls_sim st)"
    and "decision_point env st = Inr st'"
    and "worst_case < timestep (ls_sim st')"
  shows "simulation_loop env worst_case st = Some (Inr (worst_case, False, ls_times st'))"
  using assms by (subst simulation_loop.simps) simp

lemma simulation_loop_quiet_steps:
  "quiet_steps env worst_case n st0 = Some st \<Longrightarrow>
     simulation_loop env worst_case st0 = simulation_loop env worst_case st"
proof (induction n arbitrary: st0)
  case 0
  then show ?case by simp
next
  case (Suc n)
  from Suc.prems obtain st1 where
    a: "\<not> sim_done (ls_sim st0)" "decision_point env st0 = Inr st1"
       "\<not> worst_case < timestep (ls_sim st1)" "quiet_steps env worst_case n st1 = Some st"
    by (auto split: if_splits sum.splits)
  have "simulation_loop env worst_case st0 = simulation_loop env worst_case st1"
    using a(1-3) by (subst simulation_loop.simps) simp
  also have "\<dots> = simulation_loop env worst_case st" by (rule Suc.IH [OF a(4)])
  finally show ?case .
qed

text \<open>
  C3. The bound is the sum of the execution durations plus, for every task, the maximum
  of its row of travel times. In the loop of \<open>run_one_simulation\<close>, whenever a decision
  point leaves the timestep above the bound (after any number of decision points that
  did not), the run ends there and returns the bound as makespan with \<open>feasible = False\<close>
  and the computation times so far; nothing is raised.
\<close>

theorem infeasible_run_capped_at_bound:
  assumes "worst_case_makespan problem = Inr worst_case"
    and "quiet_steps env worst_case n st0 = Some st"
    and "\<not> sim_done (ls_sim st)"
    and "decision_point env st = Inr st'"
    and "worst_case < timestep (ls_sim st')"
  shows "worst_case = sum_list (T_e problem) +
           (\<Sum>i\<leftarrow>[0 ..< length (T_e problem)]. Max (set (T_t problem ! i))) \<and>
         simulation_loop env worst_case st0 = Some (Inr (worst_case, False, ls_times st'))"
proof -
  have "simulation_loop env worst_case st0 = simulation_loop env worst_case st"
    by (rule simulation_loop_quiet_steps [OF assms(2)])
  also have "\<dots> = Some (Inr (worst_case, False, ls_times st'))"
    by (rule simulation_loop_caps_makespan [OF assms(3-5)])
  finally show ?thesis using worst_case_makespan_value [OF assms(1)] by simp
qed

lemma greedy_decision_point:
  "decision_point env0
      \<lparr>ls_sim = (mk_sim [] [])\<lparr>timestep := t\<rparr>, ls_scheduler = GreedyInstantaneousScheduler,
       ls_times = ts, ls_ticks = k\<rparr> =
   Inr \<lparr>ls_sim = (mk_sim [] [])\<lparr>timestep := t + 1\<rparr>,
        ls_scheduler = GreedyInstantaneousScheduler,
        ls_times = ts @ [1], ls_ticks = k + 2\<rparr>"
  by (simp add: decision_point_def scheduler_call_def isinstance_sadcher_def env0_def
        mk_sim_def Let_def)

theorem infeasible_run_capped_at_bound_witness:
  "worst_case_makespan short_problem = Inr (3 / 2) \<and>
   simulation_loop env0 (3 / 2) loop_start = Some (Inr (3 / 2, False, [1, 1]))"
proof -
  let ?st = "\<lambda>t ts k. \<lparr>ls_sim = (mk_sim [] [])\<lparr>timestep := t\<rparr>,
                         ls_scheduler = GreedyInstantaneousScheduler,
                         ls_times = ts, ls_ticks = k\<rparr>"
  have s0: "loop_start = ?st 0 [] 0"
    by (simp add: loop_start_def mk_sim_def)
  have w: "worst_case_makespan short_problem = Inr (3 / 2)"
    by (simp add: worst_case_makespan_def short_problem_def np_max_def)
  have q: "quiet_steps env0 (3 / 2) 1 loop_start = Some (?st 1 [1] 2)"
    unfolding s0 One_nat_def quiet_steps.simps greedy_decision_point
    by (simp add: mk_sim_def)
  have d: "decision_point env0 (?st 1 [1] 2) = Inr (?st 2 [1, 1] 4)"
    using greedy_decision_point [of 1 "[1]" 2] by simp
  have n: "\<not> sim_done (ls_sim (?st 1 [1] 2))"
    by (simp add: mk_sim_def)
  have t: "3 / 2 < timestep (ls_sim (?st 2 [1, 1] 4))"
    by simp
  from infeasible_run_capped_at_bound [OF w q n d t] w show ?thesis by simp
qed

section \<open>Configuration errors\<close>









lemma run_one_simulation_always_raises:
  "run_one_simulation env problem scheduler_name checkpoint_path =
     Some (Inl (case worst_case_makespan problem of
                  Inl e \<Rightarrow> e
                | Inr _ \<Rightarrow>
                   (case Simulation env problem scheduler_name of
                      Inl e \<Rightarrow> e
                    | Inr _ \<Rightarrow>
                        TypeError (''create_scheduler() got an unexpected keyword argument ''
                                   @ quoted ''model_name''))))"
  by (simp add: run_one_simulation_def create_scheduler_call_rejected split: sum.splits)




section \<open>Idempotence of the assignment filters\<close>

lemma filter_again:
  assumes "\<And>x. x \<in> set xs \<Longrightarrow> P x \<Longrightarrow> Q x"
  shows "filter Q (filter P xs) = filter P xs"
  using assms by (induction xs) auto

lemma list_ex_filter: "list_ex Q (filter P xs) \<Longrightarrow> list_ex Q xs"
  by (auto simp: list_ex_iff)

lemma length_filter_filter: "length (filter Q (filter P xs)) \<le> length (filter Q xs)"
  by (induction xs) auto

lemma claimed_lower_filter: "claimed_lower (filter P sol) r t \<Longrightarrow> claimed_lower sol r t"
  unfolding claimed_lower_def by (rule list_ex_filter)

lemma has_better_pair_filter:
  "has_better_pair reward (filter P sol) r t \<Longrightarrow> has_better_pair reward sol r t"
  unfolding has_better_pair_def by (rule list_ex_filter)

lemma rivals_filter:
  "length (rivals_for_task reward (filter P sol) r t) \<le> length (rivals_for_task reward sol r t)"
  unfolding rivals_for_task_def by (rule length_filter_filter)

lemma filter_redundant_idem:
  "filter_redundant_assignments (filter_redundant_assignments sol sim) sim =
     filter_redundant_assignments sol sim"
  unfolding filter_redundant_assignments_def
  by (rule filter_again) (auto dest: claimed_lower_filter)

lemma capacity_pass_robot_pass:
  "capacity_pass reward capacity (robot_pass reward (capacity_pass reward capacity sol)) =
     robot_pass reward (capacity_pass reward capacity sol)"
proof -
  let ?keep = "\<lambda>s. (\<lambda>((r, t), v). v = (1::real) \<longrightarrow> length (rivals_for_task reward s r t) < capacity t)"
  let ?S1 = "capacity_pass reward capacity sol"
  let ?S2 = "robot_pass reward ?S1"
  have "?keep ?S2 x" if "x \<in> set ?S2" for x
  proof -
    obtain r t v where x: "x = ((r, t), v)" by (cases x) auto
    from that have "x \<in> set ?S1" by (simp add: robot_pass_def)
    then have k: "v = 1 \<longrightarrow> length (rivals_for_task reward sol r t) < capacity t"
      by (simp add: capacity_pass_def x)
    have "length (rivals_for_task reward ?S2 r t) \<le> length (rivals_for_task reward ?S1 r t)"
      unfolding robot_pass_def by (rule rivals_filter)
    also have "\<dots> \<le> length (rivals_for_task reward sol r t)"
      unfolding capacity_pass_def by (rule rivals_filter)
    finally show ?thesis using k by (auto simp: x)
  qed
  then have "filter (?keep ?S2) ?S2 = ?S2" by (simp add: filter_id_conv)
  then show ?thesis by (simp add: capacity_pass_def [of reward capacity ?S2])
qed

lemma robot_pass_idem: "robot_pass reward (robot_pass reward sol) = robot_pass reward sol"
  unfolding robot_pass_def
  by (rule filter_again) (auto dest: has_better_pair_filter)

lemma filter_over_idem:
  "filter_overassignments reward capacity (filter_overassignments reward capacity sol sim) sim =
     filter_overassignments reward capacity sol sim"
  by (simp add: filter_overassignments_def capacity_pass_robot_pass robot_pass_idem)

text \<open>
  C10. For every raw matching result and simulation state, applying
  \<open>filter_redundant_assignments\<close> twice gives what applying it once gives, and so does
  \<open>filter_overassignments\<close>.
\<close>

theorem filters_idempotent:
  "filter_redundant_assignments (filter_redundant_assignments sol sim) sim =
     filter_redundant_assignments sol sim \<and>
   filter_overassignments reward capacity (filter_overassignments reward capacity sol sim) sim =
     filter_overassignments reward capacity sol sim"
  by (simp add: filter_redundant_idem filter_over_idem)

theorem filters_idempotent_witness:
  "filter_redundant_assignments raw_solution sim_two_tasks
     = [((0, 1), 1), ((1, 2), 1), ((0, 3), 0)] \<and>
   filter_redundant_assignments (filter_redundant_assignments raw_solution sim_two_tasks)
       sim_two_tasks
     = [((0, 1), 1), ((1, 2), 1), ((0, 3), 0)] \<and>
   filter_overassignments pair_reward (\<lambda>t. 1) raw_solution sim_two_tasks
     = [((1, 1), 1), ((0, 3), 0)] \<and>
   filter_overassignments pair_reward (\<lambda>t. 1)
       (filter_overassignments pair_reward (\<lambda>t. 1) raw_solution sim_two_tasks) sim_two_tasks
     = [((1, 1), 1), ((0, 3), 0)]"
proof -
  have a: "filter_redundant_assignments raw_solution sim_two_tasks
             = [((0, 1), 1), ((1, 2), 1), ((0, 3), 0)]"
    by (simp add: filter_redundant_assignments_def raw_solution_def committed_def
          claimed_lower_def example_defs)
  have b: "filter_overassignments pair_reward (\<lambda>t. 1) raw_solution sim_two_tasks
             = [((1, 1), 1), ((0, 3), 0)]"
    by (simp add: filter_overassignments_def capacity_pass_def robot_pass_def
          rivals_for_task_def has_better_pair_def better_for_task_def better_for_robot_def
          raw_solution_def pair_reward_def)
  from filters_idempotent [of raw_solution sim_two_tasks pair_reward "\<lambda>t. 1"] a b
  show ?thesis by simp
qed


end
